theory Spec2Isabelle
  imports Main "HOL-Library.Log_Nat"
begin

section \<open>Data model of \<open>src/linter.ts\<close>\<close>

text \<open>
  A Lint Issue is one element of the array that ember-template-lint prints for a file.
  The source destructures the five properties \<open>rule\<close>, \<open>message\<close>, \<open>severity\<close>,
  \<open>line\<close> and \<open>column\<close> (linter.ts, line 71); a property that is missing from the object
  is \<open>undefined\<close> in JavaScript and \<open>None\<close> here. A JavaScript number is an IEEE 754
  double; the numbers of the model are the doubles that are integers, as the linter
  reports them, each given by its value.
\<close>

record lint_issue =
  rule :: "string option"
  message :: string
  severity :: int
  line :: "int option"
  column :: "int option"

text \<open>The host's \<open>DiagnosticSeverity\<close> enumeration.\<close>

datatype DiagnosticSeverity = Error | Warning | Information | Hint

text \<open>The exceptions that the modelled code can raise.\<close>

datatype js_error = TypeError | IllegalArgument

text \<open>
  Arithmetic on doubles: the result of \<open>+\<close> and \<open>-\<close> is the exact result rounded to the
  nearest double, a tie going to the double with the even significand. A significand has
  53 bits, so every integer up to \<open>2 ^ 53\<close> in absolute value is a double, and beyond
  that the doubles are the multiples of a power of two that leave a quotient of 53 bits.
  Adding or subtracting 1 never leaves the finite doubles.
\<close>

definition roundToDouble :: "int \<Rightarrow> int" where
  "roundToDouble x =
     (if \<bar>x\<bar> \<le> 2 ^ 53 then x
      else
        (let a = \<bar>x\<bar>;
             q = 2 ^ (nat (bitlen a) - 53);
             k = a div q;
             r = a mod q;
             k = (if 2 * r < q then k
                  else if q < 2 * r then k + 1
                  else if even k then k else k + 1)
         in sgn x * (k * q)))"

definition plus_js :: "int \<Rightarrow> int \<Rightarrow> int" where
  "plus_js x y = roundToDouble (x + y)"

definition minus_js :: "int \<Rightarrow> int \<Rightarrow> int" where
  "minus_js x y = roundToDouble (x - y)"

text \<open>
  The host's \<open>Range\<close>, built by \<open>new Range(startLine, startCharacter, endLine, endCharacter)\<close>.
  The class belongs to the host editor and is not part of the sources. Its constructor
  builds the two positions, throwing when a line or a character is negative, and stores
  them in order, the earlier position as the start.
\<close>

datatype Range = Range (startLine: int) (startCharacter: int) (endLine: int) (endCharacter: int)

definition newRange :: "int \<Rightarrow> int \<Rightarrow> int \<Rightarrow> int \<Rightarrow> js_error + Range" where
  "newRange sLine sChar eLine eChar =
     (if sLine < 0 \<or> sChar < 0 \<or> eLine < 0 \<or> eChar < 0
      then Inl IllegalArgument
      else if sLine < eLine \<or> (sLine = eLine \<and> sChar < eChar)
      then Inr (Range sLine sChar eLine eChar)
      else Inr (Range eLine eChar sLine sChar))"

text \<open>
  The object literal \<open>result\<close> that \<open>getDiagnosticForLintResult\<close> builds. The properties
  \<open>code\<close> and \<open>range\<close> are assigned conditionally, so they are optional.
\<close>

record diagnostic =
  diag_message :: string
  diag_severity :: DiagnosticSeverity
  diag_source :: string
  diag_code :: "string option"
  diag_range :: "Range option"

text \<open>
  JavaScript truthiness of a value that is a string or \<open>undefined\<close>, as tested by
  \<open>if (rule)\<close>: \<open>undefined\<close> and the empty string are falsy, every other string is truthy.
\<close>

definition truthy :: "string option \<Rightarrow> bool" where
  "truthy v = (case v of None \<Rightarrow> False | Some s \<Rightarrow> s \<noteq> [])"

text \<open>
  linter.ts, lines 70 to 94. The function returns the diagnostic, or ends with the
  exception of the \<open>Range\<close> constructor.
\<close>

definition getDiagnosticForLintResult :: "lint_issue \<Rightarrow> js_error + diagnostic" where
  "getDiagnosticForLintResult lintResult =
     (let result = \<lparr> diag_message = message lintResult,
                      diag_severity = (if severity lintResult = 2 then Error else Information),
                      diag_source = ''ember-template-linter'',
                      diag_code = None,
                      diag_range = None \<rparr>;
          result = (if truthy (rule lintResult)
                    then result\<lparr> diag_code := rule lintResult \<rparr> else result)
      in case (line lintResult, column lintResult) of
           (Some l, Some c) \<Rightarrow>
             (case newRange (minus_js l 1) c (minus_js l 1) (plus_js c 1) of
                Inl e \<Rightarrow> Inl e
              | Inr r \<Rightarrow> Inr (result\<lparr> diag_range := Some r \<rparr>))
         | _ \<Rightarrow> Inr result)"

text \<open>
  \<open>lintIssues.map(issue => getDiagnosticForLintResult(issue))\<close> (linter.ts, line 207):
  the issues are mapped in order, and the first exception ends the whole call.
\<close>

fun mapDiagnostics :: "lint_issue list \<Rightarrow> js_error + diagnostic list" where
  "mapDiagnostics [] = Inr []"
| "mapDiagnostics (issue # issues) =
     (case getDiagnosticForLintResult issue of
        Inl e \<Rightarrow> Inl e
      | Inr d \<Rightarrow> (case mapDiagnostics issues of Inl e \<Rightarrow> Inl e | Inr ds \<Rightarrow> Inr (d # ds)))"

section \<open>Paths and strings\<close>

text \<open>
  An absolute path is the list of its components below the root; the root is \<open>[]\<close>.
  \<open>dirname\<close> and \<open>relative\<close> are Node's \<open>path.dirname\<close> and \<open>path.relative\<close> on
  such paths, and \<open>fsPath\<close> renders a path as the string that \<open>document.uri.fsPath\<close> holds.
\<close>

type_synonym path = "string list"

definition dirname :: "path \<Rightarrow> path" where
  "dirname p = butlast p"

fun relative :: "path \<Rightarrow> path \<Rightarrow> path" where
  "relative [] to = to"
| "relative (a # as) [] = replicate (length (a # as)) ''..''"
| "relative (a # as) (b # bs) =
     (if a = b then relative as bs else replicate (length (a # as)) ''..'' @ (b # bs))"

fun join :: "string list \<Rightarrow> string" where
  "join [] = []"
| "join [c] = c"
| "join (c # d # cs) = c @ ''/'' @ join (d # cs)"

definition fsPath :: "path \<Rightarrow> string" where
  "fsPath p = ''/'' @ join p"

text \<open>\<open>String.prototype.endsWith\<close>.\<close>

definition endsWith :: "string \<Rightarrow> string \<Rightarrow> bool" where
  "endsWith s suffix =
     (length suffix \<le> length s \<and> drop (length s - length suffix) s = suffix)"

text \<open>
  \<open>String.prototype.indexOf\<close>: the index of the first occurrence of the search string,
  or \<open>-1\<close> when there is none.
\<close>

fun indexOf :: "string \<Rightarrow> string \<Rightarrow> int" where
  "indexOf [] m = (if m = [] then 0 else - 1)"
| "indexOf (c # cs) m =
     (if take (length m) (c # cs) = m then 0
      else (let r = indexOf cs m in if r = - 1 then - 1 else r + 1))"

section \<open>Configuration lookup\<close>

text \<open>
  Modelled from the spec: the synchronous search of the \<open>find-up\<close> package, which
  \<open>lintTemplate\<close> calls and whose code is not part of the sources. Following the
  specification of the Config Resolver, it walks from the start directory upward through
  the parent directories, returns the path of the configuration file in the first
  directory that contains one, and returns none when the root has been tried without a
  match. The first argument tells which paths are existing files.
\<close>

function findUp_sync :: "(path \<Rightarrow> bool) \<Rightarrow> string \<Rightarrow> path \<Rightarrow> path option" where
  "findUp_sync isFile name dir =
     (if isFile (dir @ [name]) then Some (dir @ [name])
      else if dir = [] then None
      else findUp_sync isFile name (butlast dir))"
  by pat_completeness auto
termination
  by (relation "measure (\<lambda>(isFile, name, dir). length dir)") auto

declare findUp_sync.simps [simp del]

section \<open>The subprocess and its output\<close>

text \<open>
  The values that \<open>JSON.parse\<close> can return for the linter's output, and \<open>undefined\<close>,
  which a property lookup adds. An array is an array of Lint Issues, the shape the
  source documents (linter.ts, lines 124 to 139). \<open>JObj\<close> lists the own properties of
  an object, one entry for each key.
\<close>

datatype js =
    JUndefined
  | JNull
  | JBool bool
  | JNum int
  | JStr string
  | JArr "lint_issue list"
  | JObj "(string \<times> js) list"

text \<open>
  The property access \<open>jsonResult[targetRelativePath]\<close>. Reading a property of \<open>null\<close>
  or \<open>undefined\<close> throws a TypeError (\<open>None\<close>); an object yields its own property or
  \<open>undefined\<close>; any other value has no property of that name. The key is a relative
  path that ends in \<open>.hbs\<close>, so it names no built-in property.
\<close>

definition getProperty :: "js \<Rightarrow> string \<Rightarrow> js option" where
  "getProperty v key =
     (case v of
        JUndefined \<Rightarrow> None
      | JNull \<Rightarrow> None
      | JObj props \<Rightarrow> Some (case map_of props key of None \<Rightarrow> JUndefined | Some x \<Rightarrow> x)
      | _ \<Rightarrow> Some JUndefined)"

text \<open>
  The options and arguments handed to \<open>cp.spawnSync\<close>, and the part of its result that
  the source reads: \<open>error\<close> is set when the child could not be started or was killed at
  the timeout, \<open>status\<close> is the exit code (\<open>null\<close>, here \<open>None\<close>, when a signal ended
  the child), \<open>stdout\<close> is the captured output. \<open>signal\<close> and \<open>stderr\<close> are destructured
  but never read.
\<close>

record invocation =
  command :: string
  args :: "string list"
  cwd :: path
  timeout :: nat
  input :: string

datatype spawn_error = ENOENT | ETIMEDOUT | OtherError string

record spawn_result =
  error :: "spawn_error option"
  status :: "int option"
  stdout :: string

text \<open>
  What a lint cycle reads from outside the program: which files exist, how the subprocess
  answers, the environment variable \<open>CI\<close>, and the library function \<open>JSON.parse\<close>
  (\<open>None\<close> when it throws a SyntaxError).
\<close>

record world =
  files :: "path \<Rightarrow> bool"
  spawnSync :: "invocation \<Rightarrow> spawn_result"
  CI :: "string option"
  JSON_parse :: "string \<Rightarrow> js option"

section \<open>State of the orchestrator\<close>

record document =
  uri :: path
  getText :: string

text \<open>
  The diagnostic collection maps a document's identity to its diagnostics. \<open>timers\<close> is
  the runtime's table of scheduled timeouts (handle, due time in milliseconds, the document
  captured by the callback), \<open>lintTimeoutId\<close> is the module variable of that name, and
  \<open>spawned\<close> records every subprocess invocation in order. What the program writes to
  the console is not part of the state.
\<close>

record state =
  collection :: "path \<rightharpoonup> diagnostic list"
  lintTimeoutId :: "nat option"
  timers :: "(nat \<times> nat \<times> document) list"
  nextTimerId :: nat
  spawned :: "invocation list"

definition DELAY_BEFORE_LINT_MS :: nat where
  "DELAY_BEFORE_LINT_MS = 500"

definition LINT_TIMEOUT_MS :: nat where
  "LINT_TIMEOUT_MS = 1000"

text \<open>\<open>languages.getDiagnostics(uri)\<close>: the diagnostics shown for a document.\<close>

definition getDiagnostics :: "state \<Rightarrow> path \<Rightarrow> diagnostic list" where
  "getDiagnostics st u = (case collection st u of None \<Rightarrow> [] | Some ds \<Rightarrow> ds)"

definition setTimeout :: "nat \<Rightarrow> nat \<Rightarrow> document \<Rightarrow> state \<Rightarrow> nat \<times> state" where
  "setTimeout now delay doc st =
     (nextTimerId st,
      st\<lparr> timers := timers st @ [(nextTimerId st, now + delay, doc)],
          nextTimerId := Suc (nextTimerId st) \<rparr>)"

definition clearTimeout :: "nat \<Rightarrow> state \<Rightarrow> state" where
  "clearTimeout h st = st\<lparr> timers := filter (\<lambda>(i, due, doc). i \<noteq> h) (timers st) \<rparr>"

section \<open>The lint cycle\<close>

datatype completion = Returned | Thrown js_error

text \<open>
  linter.ts, lines 207 to 209: \<open>lintIssues.map(...)\<close> and \<open>collection.set\<close>. Only an array
  has \<open>map\<close>; on any other value the call throws a TypeError. An exception of the
  mapping leaves the function as well. In both cases the collection is not touched.
\<close>

definition publish :: "document \<Rightarrow> js \<Rightarrow> state \<Rightarrow> completion \<times> state" where
  "publish document lintIssues st =
     (case lintIssues of
        JArr issues \<Rightarrow>
          (case mapDiagnostics issues of
             Inl e \<Rightarrow> (Thrown e, st)
           | Inr diagnostics \<Rightarrow>
               (Returned, st\<lparr> collection := (collection st)(uri document \<mapsto> diagnostics) \<rparr>))
      | _ \<Rightarrow> (Thrown TypeError, st))"

text \<open>
  linter.ts, lines 141 to 153: the arguments and options of the \<open>cp.spawnSync\<close> call.
\<close>

definition spawnArguments :: "path \<Rightarrow> string \<Rightarrow> document \<Rightarrow> invocation" where
  "spawnArguments configDir targetRelativePath document =
     \<lparr> command = ''./node_modules/.bin/ember-template-lint'',
       args = [''--json'', ''--filename'', targetRelativePath],
       cwd = configDir,
       timeout = LINT_TIMEOUT_MS,
       input = getText document \<rparr>"

text \<open>
  linter.ts, lines 177 to 185: when the environment variable \<open>CI\<close> is the string
  \<open>true\<close>, the output is cut at the marker that the test runner appends.
\<close>

definition stripTestRunnerError :: "string option \<Rightarrow> string \<Rightarrow> string" where
  "stripTestRunnerError ci output =
     (if ci = Some ''true'' then
        (let testRunnerErrorFragmentIdx = indexOf output ''##[error]''
         in if testRunnerErrorFragmentIdx \<noteq> - 1
            then take (nat testRunnerErrorFragmentIdx) output
            else output)
      else output)"

text \<open>
  linter.ts, lines 155 to 203: the value of \<open>lintIssues\<close> after the result of the
  subprocess has been read. \<open>lintIssues\<close> starts as the empty array. Inside the \<open>try\<close>
  block the assignment \<open>lintIssues = jsonResult[targetRelativePath]\<close> comes before
  \<open>lintIssues.length\<close> is read: when that read throws, the \<open>catch\<close> block only logs and
  the assigned value stays. When \<open>JSON.parse\<close> or the property access throws, nothing has
  been assigned.
\<close>

definition readLintIssues :: "world \<Rightarrow> string \<Rightarrow> spawn_result \<Rightarrow> js" where
  "readLintIssues w targetRelativePath result =
     (case error result of
        Some e \<Rightarrow> JArr []
      | None \<Rightarrow>
          (let output = stdout result
           in if status result \<noteq> Some 0 \<and> output \<noteq> [] then
                (let output = stripTestRunnerError (CI w) output
                 in case JSON_parse w output of
                      None \<Rightarrow> JArr []
                    | Some jsonResult \<Rightarrow>
                        (case getProperty jsonResult targetRelativePath of
                           None \<Rightarrow> JArr []
                         | Some v \<Rightarrow> v))
              else JArr []))"

text \<open>linter.ts, lines 99 to 210.\<close>

definition lintTemplate :: "world \<Rightarrow> document \<Rightarrow> state \<Rightarrow> completion \<times> state" where
  "lintTemplate w document st =
     (let targetPath = uri document;
          targetDir = dirname targetPath;
          configFile = findUp_sync (files w) ''.template-lintrc.js'' targetDir
      in case configFile of
           None \<Rightarrow> publish document (JArr []) st
         | Some cf \<Rightarrow>
             (let configDir = dirname cf;
                  targetRelativePath = join (relative configDir targetPath);
                  cmd = spawnArguments configDir targetRelativePath document;
                  result = spawnSync w cmd;
                  st = st\<lparr> spawned := spawned st @ [cmd] \<rparr>;
                  lintIssues = readLintIssues w targetRelativePath result
              in publish document lintIssues st))"

text \<open>linter.ts, lines 30 to 55.\<close>

definition updateDiagnostics :: "nat \<Rightarrow> document \<Rightarrow> state \<Rightarrow> state" where
  "updateDiagnostics now document st =
     (let isHbsFile = endsWith (fsPath (uri document)) ''.hbs''
      in if \<not> isHbsFile then st\<lparr> collection := Map.empty \<rparr>
         else
           (let st = (case lintTimeoutId st of
                        None \<Rightarrow> st
                      | Some h \<Rightarrow> (clearTimeout h st)\<lparr> lintTimeoutId := None \<rparr>);
                (h, st) = setTimeout now DELAY_BEFORE_LINT_MS document st
            in st\<lparr> lintTimeoutId := Some h \<rparr>))"

text \<open>The callback handed to \<open>setTimeout\<close> (linter.ts, lines 49 to 52).\<close>

definition timerCallback :: "world \<Rightarrow> document \<Rightarrow> state \<Rightarrow> completion \<times> state" where
  "timerCallback w document st = lintTemplate w document (st\<lparr> lintTimeoutId := None \<rparr>)"

section \<open>The event loop\<close>

text \<open>
  The host calls \<open>updateDiagnostics\<close> for a document, or the timer phase of the event
  loop runs. Each event carries the time at which it is handled. The runtime never runs
  a timeout before it is due; when the timer phase runs it takes the first scheduled
  timeout that is due, removes it from the table and calls its callback. An exception
  that escapes the callback goes to the host and the loop carries on. The outside world
  may differ from one moment to the next, so it is a function of the time.
\<close>

datatype event = Request document | TimerPhase

fun step :: "(nat \<Rightarrow> world) \<Rightarrow> state \<Rightarrow> nat \<times> event \<Rightarrow> state" where
  "step W st (t, Request document) = updateDiagnostics t document st"
| "step W st (t, TimerPhase) =
     (case find (\<lambda>(h, due, doc). due \<le> t) (timers st) of
        None \<Rightarrow> st
      | Some (h, due, doc) \<Rightarrow>
          snd (timerCallback (W t) doc (st\<lparr> timers := remove1 (h, due, doc) (timers st) \<rparr>)))"

definition run :: "(nat \<Rightarrow> world) \<Rightarrow> (nat \<times> event) list \<Rightarrow> state \<Rightarrow> state" where
  "run W evs st = foldl (step W) st evs"

definition initial :: state where
  "initial = \<lparr> collection = Map.empty, lintTimeoutId = None, timers = [],
               nextTimerId = 0, spawned = [] \<rparr>"

section \<open>Notions used in the statements\<close>

text \<open>
  The timer table and the module variable agree: either nothing is scheduled and the
  variable is \<open>null\<close>, or exactly one timeout is scheduled and the variable holds its handle.
\<close>

definition wf_state :: "state \<Rightarrow> bool" where
  "wf_state st =
     (case lintTimeoutId st of
        None \<Rightarrow> timers st = []
      | Some h \<Rightarrow> (case timers st of [(i, due, doc)] \<Rightarrow> i = h | _ \<Rightarrow> False))"

text \<open>
  \<open>burst t0 now evs\<close>: the events \<open>evs\<close> continue a burst whose latest request was handled
  at time \<open>t0\<close>, the current time being \<open>now\<close>. Time does not run backwards, every request
  is for a template document and is handled less than the debounce delay after the request
  before it. The timer phase may run at any moment.
\<close>

fun burst :: "nat \<Rightarrow> nat \<Rightarrow> (nat \<times> event) list \<Rightarrow> bool" where
  "burst t0 now [] = True"
| "burst t0 now ((t, Request d) # evs) =
     (now \<le> t \<and> t < t0 + DELAY_BEFORE_LINT_MS \<and> endsWith (fsPath (uri d)) ''.hbs''
      \<and> burst t t evs)"
| "burst t0 now ((t, TimerPhase) # evs) = (now \<le> t \<and> burst t0 t evs)"

text \<open>The document of the last request among \<open>d\<close> and the requests in \<open>evs\<close>.\<close>

fun lastRequested :: "document \<Rightarrow> (nat \<times> event) list \<Rightarrow> document" where
  "lastRequested d [] = d"
| "lastRequested d ((t, Request d') # evs) = lastRequested d' evs"
| "lastRequested d ((t, TimerPhase) # evs) = lastRequested d evs"

text \<open>
  A subprocess invocation targets a document when it is given the document's text on its
  standard input and the document's path, relative to the working directory, as the file
  name.
\<close>

definition targets :: "invocation \<Rightarrow> document \<Rightarrow> bool" where
  "targets cmd d =
     (input cmd = getText d
      \<and> args cmd = [''--json'', ''--filename'', join (relative (cwd cmd) (uri d))])"

section \<open>Example inputs\<close>

text \<open>
  A project directory \<open>/proj\<close> with a configuration file, a template below it, a document
  that is no template, a Lint Issue and a diagnostic.
\<close>

definition sampleFiles :: "path \<Rightarrow> bool" where
  "sampleFiles p = (p = [''proj'', ''.template-lintrc.js''])"

definition sampleDocument :: document where
  "sampleDocument = \<lparr> uri = [''proj'', ''app'', ''a.hbs''], getText = ''<div>'' \<rparr>"

definition otherDocument :: document where
  "otherDocument = \<lparr> uri = [''proj'', ''app'', ''b.hbs''], getText = ''<p></p>'' \<rparr>"

definition readmeDocument :: document where
  "readmeDocument = \<lparr> uri = [''proj'', ''README.md''], getText = ''# readme'' \<rparr>"

definition sampleIssue :: lint_issue where
  "sampleIssue = \<lparr> rule = None, message = ''Parse error on line 1'', severity = 2,
                     line = None, column = None \<rparr>"

definition sampleDiagnostic :: diagnostic where
  "sampleDiagnostic = \<lparr> diag_message = ''Incorrect indentation'', diag_severity = Error,
                          diag_source = ''ember-template-linter'',
                          diag_code = Some ''block-indentation'',
                          diag_range = Some (Range 0 2 0 3) \<rparr>"

text \<open>A state in which diagnostics are shown for the sample template.\<close>

definition shownState :: state where
  "shownState = initial\<lparr> collection := [uri sampleDocument \<mapsto> [sampleDiagnostic]] \<rparr>"

text \<open>
  The linter's output for the sample template with one fatal issue, and the same output
  followed by the text that the test runner appends.
\<close>

definition sampleOutput :: string where
  \<open>sampleOutput = ''{"app/a.hbs":[{"severity":2,"message":"Parse error on line 1"}]}''\<close>

definition sampleOutputCI :: string where
  "sampleOutputCI = sampleOutput @ ''##[error]Process completed with exit code 1.''"

text \<open>
  \<open>JSON.parse\<close> on the outputs that the examples use: the empty object, the sample
  output, and strings that are not JSON, on which it throws.
\<close>

definition sampleParse :: "string \<Rightarrow> js option" where
  "sampleParse s =
     (if s = ''{}'' then Some (JObj [])
      else if s = sampleOutput then Some (JObj [(''app/a.hbs'', JArr [sampleIssue])])
      else None)"

text \<open>The world in which the subprocess ends with the given result.\<close>

definition sampleWorld :: "spawn_result \<Rightarrow> string option \<Rightarrow> world" where
  "sampleWorld r ci =
     \<lparr> files = sampleFiles, spawnSync = (\<lambda>cmd. r), CI = ci, JSON_parse = sampleParse \<rparr>"

section \<open>Configuration lookup finds the nearest configuration\<close>

lemma findUp_sync_root:
  "findUp_sync isFile name [] = (if isFile [name] then Some [name] else None)"
  by (simp add: findUp_sync.simps [of isFile name "[]"])

lemma findUp_sync_snoc:
  "findUp_sync isFile name (ds @ [d]) =
     (if isFile (ds @ [d, name]) then Some (ds @ [d, name]) else findUp_sync isFile name ds)"
  by (simp add: findUp_sync.simps [of isFile name "ds @ [d]"])

lemma findUp_sync_None_iff:
  "findUp_sync isFile name dir = None \<longleftrightarrow> (\<forall>k\<le>length dir. \<not> isFile (take k dir @ [name]))"
proof (induction dir rule: rev_induct)
  case Nil
  show ?case by (simp add: findUp_sync_root)
next
  case (snoc d ds)
  have split: "\<And>P. (\<forall>k\<le>Suc (length ds). P k) \<longleftrightarrow> (P (Suc (length ds)) \<and> (\<forall>k\<le>length ds. P k))"
    by (metis le_Suc_eq)
  show ?case
    by (simp add: findUp_sync_snoc snoc.IH split)
qed

lemma findUp_sync_Some_iff:
  "findUp_sync isFile name dir = Some p \<longleftrightarrow>
     (\<exists>k\<le>length dir. p = take k dir @ [name] \<and> isFile p
        \<and> (\<forall>j. k < j \<and> j \<le> length dir \<longrightarrow> \<not> isFile (take j dir @ [name])))"
proof (induction dir rule: rev_induct)
  case Nil
  show ?case by (auto simp add: findUp_sync_root)
next
  case (snoc d ds)
  let ?n = "length ds"
  show ?case
  proof (cases "isFile (ds @ [d, name])")
    case True
    have "(\<exists>k\<le>Suc ?n. p = take k (ds @ [d]) @ [name] \<and> isFile p
        \<and> (\<forall>j. k < j \<and> j \<le> Suc ?n \<longrightarrow> \<not> isFile (take j (ds @ [d]) @ [name])))
       \<longleftrightarrow> p = ds @ [d, name]"
    proof
      assume "\<exists>k\<le>Suc ?n. p = take k (ds @ [d]) @ [name] \<and> isFile p
        \<and> (\<forall>j. k < j \<and> j \<le> Suc ?n \<longrightarrow> \<not> isFile (take j (ds @ [d]) @ [name]))"
      then obtain k where k: "k \<le> Suc ?n" "p = take k (ds @ [d]) @ [name]"
        and far: "\<forall>j. k < j \<and> j \<le> Suc ?n \<longrightarrow> \<not> isFile (take j (ds @ [d]) @ [name])"
        by blast
      have "\<not> k < Suc ?n"
      proof
        assume "k < Suc ?n"
        with far have "\<not> isFile (take (Suc ?n) (ds @ [d]) @ [name])" by blast
        with True show False by simp
      qed
      with k(1) have "k = Suc ?n" by simp
      with k(2) show "p = ds @ [d, name]" by simp
    next
      assume "p = ds @ [d, name]"
      with True show "\<exists>k\<le>Suc ?n. p = take k (ds @ [d]) @ [name] \<and> isFile p
        \<and> (\<forall>j. k < j \<and> j \<le> Suc ?n \<longrightarrow> \<not> isFile (take j (ds @ [d]) @ [name]))"
        by (intro exI [of _ "Suc ?n"]) auto
    qed
    with True show ?thesis by (auto simp add: findUp_sync_snoc)
  next
    case False
    have "(\<exists>k\<le>Suc ?n. p = take k (ds @ [d]) @ [name] \<and> isFile p
        \<and> (\<forall>j. k < j \<and> j \<le> Suc ?n \<longrightarrow> \<not> isFile (take j (ds @ [d]) @ [name])))
       \<longleftrightarrow> (\<exists>k\<le>?n. p = take k ds @ [name] \<and> isFile p
        \<and> (\<forall>j. k < j \<and> j \<le> ?n \<longrightarrow> \<not> isFile (take j ds @ [name])))"
      (is "?L \<longleftrightarrow> ?R")
    proof
      assume ?L
      then obtain k where k: "k \<le> Suc ?n" "p = take k (ds @ [d]) @ [name]" "isFile p"
        and far: "\<forall>j. k < j \<and> j \<le> Suc ?n \<longrightarrow> \<not> isFile (take j (ds @ [d]) @ [name])"
        by blast
      have "k \<noteq> Suc ?n" using k False by auto
      with k(1) have kn: "k \<le> ?n" by simp
      have "\<forall>j. k < j \<and> j \<le> ?n \<longrightarrow> \<not> isFile (take j ds @ [name])"
      proof (intro allI impI)
        fix j assume j: "k < j \<and> j \<le> ?n"
        then have "k < j \<and> j \<le> Suc ?n" by simp
        with far have "\<not> isFile (take j (ds @ [d]) @ [name])" by blast
        with j show "\<not> isFile (take j ds @ [name])" by simp
      qed
      with k kn show ?R by auto
    next
      assume ?R
      then obtain k where k: "k \<le> ?n" "p = take k ds @ [name]" "isFile p"
        and far: "\<forall>j. k < j \<and> j \<le> ?n \<longrightarrow> \<not> isFile (take j ds @ [name])"
        by blast
      have "\<forall>j. k < j \<and> j \<le> Suc ?n \<longrightarrow> \<not> isFile (take j (ds @ [d]) @ [name])"
      proof (intro allI impI)
        fix j assume j: "k < j \<and> j \<le> Suc ?n"
        show "\<not> isFile (take j (ds @ [d]) @ [name])"
        proof (cases "j = Suc ?n")
          case True
          with False show ?thesis by simp
        next
          case ne: False
          with j have "j \<le> ?n" by simp
          with far j show ?thesis by simp
        qed
      qed
      with k show ?L by (intro exI [of _ k]) simp
    qed
    with False snoc.IH show ?thesis by (simp add: findUp_sync_snoc)
  qed
qed

section \<open>The first occurrence of a search string\<close>

lemma indexOf_ge: "- 1 \<le> indexOf s m"
  by (induction s) (auto simp add: Let_def)

lemma indexOf_Cons_miss:
  "take (length m) (c # cs) \<noteq> m \<Longrightarrow>
     indexOf (c # cs) m = (if indexOf cs m = - 1 then - 1 else indexOf cs m + 1)"
  by (simp add: Let_def)

lemma indexOf_Cons_miss_found:
  assumes "take (length m) (c # cs) \<noteq> m" and "indexOf (c # cs) m \<noteq> - 1"
  shows "indexOf cs m \<noteq> - 1" and "nat (indexOf (c # cs) m) = Suc (nat (indexOf cs m))"
proof -
  show r: "indexOf cs m \<noteq> - 1"
    using assms by (auto simp add: Let_def)
  have "0 \<le> indexOf cs m" using r indexOf_ge [of cs m] by arith
  then show "nat (indexOf (c # cs) m) = Suc (nat (indexOf cs m))"
    using assms(1) r by (simp add: indexOf_Cons_miss nat_add_distrib)
qed

lemma indexOf_none:
  "indexOf s m = - 1 \<Longrightarrow> k \<le> length s \<Longrightarrow> take (length m) (drop k s) \<noteq> m"
proof (induction s arbitrary: k)
  case Nil
  then show ?case by (auto split: if_splits)
next
  case (Cons c cs)
  have here: "take (length m) (c # cs) \<noteq> m"
    using Cons.prems(1) by (auto split: if_splits)
  have rest: "indexOf cs m = - 1"
  proof (rule ccontr)
    assume "indexOf cs m \<noteq> - 1"
    with here have "indexOf (c # cs) m = indexOf cs m + 1" by (simp add: indexOf_Cons_miss)
    with Cons.prems(1) indexOf_ge [of cs m] show False by arith
  qed
  show ?case
  proof (cases k)
    case 0
    with here show ?thesis by simp
  next
    case (Suc j)
    with Cons.prems(2) have "j \<le> length cs" by simp
    from Cons.IH [OF rest this] Suc show ?thesis by simp
  qed
qed

lemma indexOf_found_le:
  "indexOf s m \<noteq> - 1 \<Longrightarrow> nat (indexOf s m) \<le> length s"
proof (induction s)
  case Nil
  then show ?case by (simp split: if_splits)
next
  case (Cons c cs)
  show ?case
  proof (cases "take (length m) (c # cs) = m")
    case True then show ?thesis by simp
  next
    case False
    from indexOf_Cons_miss_found [OF False Cons.prems] Cons.IH show ?thesis by simp
  qed
qed

lemma indexOf_found_here:
  "indexOf s m \<noteq> - 1 \<Longrightarrow> take (length m) (drop (nat (indexOf s m)) s) = m"
proof (induction s)
  case Nil
  then show ?case by (simp split: if_splits)
next
  case (Cons c cs)
  show ?case
  proof (cases "take (length m) (c # cs) = m")
    case True then show ?thesis by simp
  next
    case False
    from indexOf_Cons_miss_found [OF False Cons.prems] Cons.IH show ?thesis by simp
  qed
qed

lemma indexOf_found_first:
  "indexOf s m \<noteq> - 1 \<Longrightarrow> k < nat (indexOf s m) \<Longrightarrow> take (length m) (drop k s) \<noteq> m"
proof (induction s arbitrary: k)
  case Nil
  then show ?case by (simp split: if_splits)
next
  case (Cons c cs)
  show ?case
  proof (cases "take (length m) (c # cs) = m")
    case True with Cons.prems show ?thesis by simp
  next
    case False
    note f = indexOf_Cons_miss_found [OF False Cons.prems(1)]
    show ?thesis
    proof (cases k)
      case 0 with False show ?thesis by simp
    next
      case (Suc j)
      with Cons.prems(2) f(2) have "j < nat (indexOf cs m)" by simp
      from Cons.IH [OF f(1) this] Suc show ?thesis by simp
    qed
  qed
qed

lemma indexOf_found_split:
  assumes "indexOf s m \<noteq> - 1"
  shows "s = take (nat (indexOf s m)) s @ m @ drop (nat (indexOf s m) + length m) s"
proof -
  let ?n = "nat (indexOf s m)"
  have "drop ?n s = take (length m) (drop ?n s) @ drop (length m) (drop ?n s)"
    by (rule append_take_drop_id [symmetric])
  also have "\<dots> = m @ drop (?n + length m) s"
    using indexOf_found_here [OF assms] by (simp add: add.commute)
  finally have "drop ?n s = m @ drop (?n + length m) s" .
  then have "take ?n s @ drop ?n s = take ?n s @ m @ drop (?n + length m) s"
    by (rule arg_cong)
  then show ?thesis by (simp only: append_take_drop_id)
qed

section \<open>Effects of a lint cycle and of a request\<close>

lemma publish_array:
  "mapDiagnostics issues = Inr ds \<Longrightarrow>
     publish d (JArr issues) st =
       (Returned, st\<lparr> collection := (collection st)(uri d \<mapsto> ds) \<rparr>)"
  by (simp add: publish_def)

lemma publish_empty:
  "publish d (JArr []) st = (Returned, st\<lparr> collection := (collection st)(uri d \<mapsto> []) \<rparr>)"
  by (simp add: publish_def)

lemma publish_frame:
  "timers (snd (publish d v st)) = timers st"
  "lintTimeoutId (snd (publish d v st)) = lintTimeoutId st"
  "spawned (snd (publish d v st)) = spawned st"
  "nextTimerId (snd (publish d v st)) = nextTimerId st"
  by (simp_all add: publish_def split: js.splits sum.splits)

lemma lintTemplate_no_config:
  assumes "findUp_sync (files w) ''.template-lintrc.js'' (dirname (uri d)) = None"
  shows "lintTemplate w d st = (Returned, st\<lparr> collection := (collection st)(uri d \<mapsto> []) \<rparr>)"
  using assms by (simp add: lintTemplate_def publish_empty)

lemma lintTemplate_config:
  assumes "findUp_sync (files w) ''.template-lintrc.js'' (dirname (uri d)) = Some cf"
  shows "lintTemplate w d st =
     publish d
       (readLintIssues w (join (relative (dirname cf) (uri d)))
          (spawnSync w (spawnArguments (dirname cf) (join (relative (dirname cf) (uri d))) d)))
       (st\<lparr> spawned := spawned st @ [spawnArguments (dirname cf) (join (relative (dirname cf) (uri d))) d] \<rparr>)"
  using assms by (simp add: lintTemplate_def Let_def)

lemma lintTemplate_frame:
  "timers (snd (lintTemplate w d st)) = timers st"
  "lintTimeoutId (snd (lintTemplate w d st)) = lintTimeoutId st"
  by (cases "findUp_sync (files w) ''.template-lintrc.js'' (dirname (uri d))";
      simp add: lintTemplate_no_config lintTemplate_config publish_frame)+

lemma targets_spawnArguments:
  "targets (spawnArguments dir (join (relative dir (uri d))) d) d"
  by (simp add: targets_def spawnArguments_def)

lemma lintTemplate_spawned:
  "spawned (snd (lintTemplate w d st)) =
     spawned st @
       (case findUp_sync (files w) ''.template-lintrc.js'' (dirname (uri d)) of
          None \<Rightarrow> []
        | Some cf \<Rightarrow> [spawnArguments (dirname cf) (join (relative (dirname cf) (uri d))) d])"
  by (cases "findUp_sync (files w) ''.template-lintrc.js'' (dirname (uri d))")
     (simp_all add: lintTemplate_no_config lintTemplate_config publish_frame)

lemma lintTemplate_spawned_cases:
  "spawned (snd (lintTemplate w d st)) = spawned st
   \<or> (\<exists>cmd. spawned (snd (lintTemplate w d st)) = spawned st @ [cmd] \<and> targets cmd d)"
  by (cases "findUp_sync (files w) ''.template-lintrc.js'' (dirname (uri d))")
     (simp_all add: lintTemplate_spawned targets_spawnArguments)

lemma updateDiagnostics_hbs:
  assumes "endsWith (fsPath (uri d)) ''.hbs''" and "wf_state st"
  shows "timers (updateDiagnostics now d st) = [(nextTimerId st, now + DELAY_BEFORE_LINT_MS, d)]"
    and "lintTimeoutId (updateDiagnostics now d st) = Some (nextTimerId st)"
    and "spawned (updateDiagnostics now d st) = spawned st"
    and "collection (updateDiagnostics now d st) = collection st"
  using assms
  by (auto simp add: updateDiagnostics_def wf_state_def setTimeout_def clearTimeout_def Let_def
      split: option.splits list.splits prod.splits)

lemma updateDiagnostics_not_hbs:
  assumes "\<not> endsWith (fsPath (uri d)) ''.hbs''"
  shows "updateDiagnostics now d st = st\<lparr> collection := Map.empty \<rparr>"
  using assms by (simp add: updateDiagnostics_def)

lemma wf_state_pending:
  "timers st = [(h, due, d)] \<Longrightarrow> lintTimeoutId st = Some h \<Longrightarrow> wf_state st"
  by (simp add: wf_state_def)

lemma wf_state_updateDiagnostics:
  "wf_state st \<Longrightarrow> wf_state (updateDiagnostics now d st)"
proof (cases "endsWith (fsPath (uri d)) ''.hbs''")
  case True
  assume "wf_state st"
  from updateDiagnostics_hbs(1,2) [OF True this, of now] show ?thesis
    by (rule wf_state_pending)
next
  case False
  assume "wf_state st"
  then show ?thesis
    by (simp add: updateDiagnostics_not_hbs [OF False] wf_state_def split: option.splits)
qed

lemma step_idle:
  "timers st = [] \<Longrightarrow> step W st (t, TimerPhase) = st"
  by simp

lemma step_not_due:
  "timers st = [(h, due, d)] \<Longrightarrow> t < due \<Longrightarrow> step W st (t, TimerPhase) = st"
  by simp

lemma step_due:
  "timers st = [(h, due, d)] \<Longrightarrow> due \<le> t \<Longrightarrow>
     step W st (t, TimerPhase) = snd (timerCallback (W t) d (st\<lparr> timers := [] \<rparr>))"
  by simp

lemma timerCallback_frame:
  "timers (snd (timerCallback w d st)) = timers st"
  "lintTimeoutId (snd (timerCallback w d st)) = None"
  by (simp_all add: timerCallback_def lintTemplate_frame)

lemma timerCallback_spawned_cases:
  "spawned (snd (timerCallback w d st)) = spawned st
   \<or> (\<exists>cmd. spawned (snd (timerCallback w d st)) = spawned st @ [cmd] \<and> targets cmd d)"
  using lintTemplate_spawned_cases [of w d "st\<lparr> lintTimeoutId := None \<rparr>"]
  by (simp add: timerCallback_def)

lemma wf_state_step: "wf_state st \<Longrightarrow> wf_state (step W st ev)"
proof (cases ev)
  case (Pair t e)
  assume wf: "wf_state st"
  show ?thesis
  proof (cases e)
    case (Request d)
    with Pair wf show ?thesis by (simp add: wf_state_updateDiagnostics)
  next
    case TimerPhase
    show ?thesis
    proof (cases "timers st")
      case Nil
      with Pair TimerPhase wf show ?thesis by simp
    next
      case (Cons x xs)
      with wf obtain h due d where one: "timers st = [(h, due, d)]"
        by (auto simp add: wf_state_def split: option.splits list.splits)
      show ?thesis
      proof (cases "due \<le> t")
        case True
        have "wf_state (snd (timerCallback (W t) d (st\<lparr> timers := [] \<rparr>)))"
          by (simp add: wf_state_def timerCallback_frame)
        with Pair TimerPhase step_due [OF one True] show ?thesis by simp
      next
        case False
        then have "t < due" by simp
        with Pair TimerPhase step_not_due [OF one] wf show ?thesis by simp
      qed
    qed
  qed
qed

lemma wf_state_run: "wf_state st \<Longrightarrow> wf_state (run W evs st)"
  unfolding run_def by (induction evs arbitrary: st) (simp_all add: wf_state_step)

lemma wf_state_initial: "wf_state initial"
  by (simp add: wf_state_def initial_def)

lemma run_Nil: "run W [] st = st"
  by (simp add: run_def)

lemma run_Cons: "run W (ev # evs) st = run W evs (step W st ev)"
  by (simp add: run_def)

text \<open>After the delay has passed without a request, the burst holds no further request.\<close>

lemma burst_expired:
  "burst t0 now evs \<Longrightarrow> t0 + DELAY_BEFORE_LINT_MS \<le> now \<Longrightarrow>
     lastRequested d evs = d \<and> (\<forall>st. timers st = [] \<longrightarrow> run W evs st = st)"
proof (induction t0 now evs rule: burst.induct)
  case (1 t0 now)
  show ?case by (simp add: run_Nil)
next
  case (2 t0 now t d' evs)
  then show ?case by simp
next
  case (3 t0 now t evs)
  then have "burst t0 t evs" and "t0 + DELAY_BEFORE_LINT_MS \<le> t" by simp_all
  with "3.IH" have "lastRequested d evs = d \<and> (\<forall>st. timers st = [] \<longrightarrow> run W evs st = st)"
    by simp
  then show ?case by (simp add: run_Cons)
qed

lemma burst_pending:
  assumes "burst t0 now evs" and "t0 \<le> now"
    and "timers st = [(h, t0 + DELAY_BEFORE_LINT_MS, d)]" and "lintTimeoutId st = Some h"
  shows "spawned (run W evs st) = spawned st
     \<or> (\<exists>cmd. spawned (run W evs st) = spawned st @ [cmd] \<and> targets cmd (lastRequested d evs))"
  using assms
proof (induction t0 now evs arbitrary: st h d rule: burst.induct)
  case (1 t0 now)
  show ?case by (simp add: run_Nil)
next
  case (2 t0 now t d' evs)
  let ?st = "updateDiagnostics t d' st"
  from "2.prems" have hbs: "endsWith (fsPath (uri d')) ''.hbs''" and b: "burst t t evs"
    by simp_all
  have wf: "wf_state st" using "2.prems"(3,4) by (rule wf_state_pending)
  note u = updateDiagnostics_hbs [OF hbs wf, of t]
  from "2.IH" [OF b le_refl u(1) u(2)] u(3)
  show ?case by (simp add: run_Cons)
next
  case (3 t0 now t evs)
  from "3.prems" have b: "burst t0 t evs" and nt: "now \<le> t" by simp_all
  show ?case
  proof (cases "t0 + DELAY_BEFORE_LINT_MS \<le> t")
    case False
    then have "t < t0 + DELAY_BEFORE_LINT_MS" by simp
    from step_not_due [OF "3.prems"(3) this]
    have s: "step W st (t, TimerPhase) = st" .
    from "3.prems"(2) nt have "t0 \<le> t" by simp
    from "3.IH" [OF b this "3.prems"(3,4)] s show ?thesis by (simp add: run_Cons)
  next
    case True
    let ?st = "snd (timerCallback (W t) d (st\<lparr> timers := [] \<rparr>))"
    from step_due [OF "3.prems"(3) True]
    have s: "step W st (t, TimerPhase) = ?st" .
    have idle: "timers ?st = []" by (simp add: timerCallback_frame)
    from burst_expired [OF b True, of d W] idle
    have l: "lastRequested d evs = d" and r: "run W evs ?st = ?st" by simp_all
    from timerCallback_spawned_cases [of "W t" d "st\<lparr> timers := [] \<rparr>"] s l r
    show ?thesis by (simp add: run_Cons)
  qed
qed

lemma readLintIssues_error:
  "error r \<noteq> None \<Longrightarrow> readLintIssues w rel r = JArr []"
  by (auto simp add: readLintIssues_def)

lemma readLintIssues_quiet:
  "error r = None \<Longrightarrow> status r = Some 0 \<or> stdout r = [] \<Longrightarrow> readLintIssues w rel r = JArr []"
  by (auto simp add: readLintIssues_def)

lemma readLintIssues_output:
  "error r = None \<Longrightarrow> status r \<noteq> Some 0 \<Longrightarrow> stdout r \<noteq> [] \<Longrightarrow>
     readLintIssues w rel r =
       (case JSON_parse w (stripTestRunnerError (CI w) (stdout r)) of
          None \<Rightarrow> JArr []
        | Some jsonResult \<Rightarrow>
            (case getProperty jsonResult rel of None \<Rightarrow> JArr [] | Some v \<Rightarrow> v))"
  by (simp add: readLintIssues_def)

lemma readLintIssues_failed:
  assumes "error r \<noteq> None
     \<or> (status r \<noteq> Some 0 \<and> stdout r \<noteq> []
        \<and> JSON_parse w (stripTestRunnerError (CI w) (stdout r)) = None)"
  shows "readLintIssues w rel r = JArr []"
proof (cases "error r")
  case (Some e)
  then show ?thesis by (simp add: readLintIssues_error)
next
  case None
  with assms show ?thesis by (simp add: readLintIssues_output)
qed

lemma getDiagnostics_set:
  "getDiagnostics (st\<lparr> collection := (collection st)(u \<mapsto> ds) \<rparr>) v =
     (if v = u then ds else getDiagnostics st v)"
  by (simp add: getDiagnostics_def)

lemma getDiagnostics_spawned [simp]:
  "getDiagnostics (st\<lparr> spawned := x \<rparr>) v = getDiagnostics st v"
  by (simp add: getDiagnostics_def)

lemma stripTestRunnerError_ci:
  "indexOf output ''##[error]'' \<noteq> - 1 \<Longrightarrow>
     stripTestRunnerError (Some ''true'') output = take (nat (indexOf output ''##[error]'')) output"
  by (simp add: stripTestRunnerError_def Let_def)

lemma stripTestRunnerError_other:
  "ci \<noteq> Some ''true'' \<Longrightarrow> stripTestRunnerError ci output = output"
  by (simp add: stripTestRunnerError_def)

lemma lintTemplate_CI_update:
  assumes "findUp_sync (files w) ''.template-lintrc.js'' (dirname (uri d)) = Some cf"
  shows "lintTemplate (w\<lparr> CI := ci \<rparr>) d st =
     publish d
       (readLintIssues (w\<lparr> CI := ci \<rparr>) (join (relative (dirname cf) (uri d)))
          (spawnSync w (spawnArguments (dirname cf) (join (relative (dirname cf) (uri d))) d)))
       (st\<lparr> spawned := spawned st @ [spawnArguments (dirname cf) (join (relative (dirname cf) (uri d))) d] \<rparr>)"
  using assms lintTemplate_config [of "w\<lparr> CI := ci \<rparr>" d cf st] by simp

text \<open>
  Output that parses to an object without the key of the document leaves \<open>undefined\<close> in
  \<open>lintIssues\<close>, and the cycle ends with a TypeError after the subprocess has run. Every
  other failure of the subprocess or of the parser leaves the empty array, and the cycle
  returns.
\<close>

lemma lintTemplate_missing_key:
  assumes "findUp_sync (files w) ''.template-lintrc.js'' (dirname (uri d)) = Some cf"
    and "rel = join (relative (dirname cf) (uri d))"
    and "r = spawnSync w (spawnArguments (dirname cf) rel d)"
    and "error r = None" and "status r \<noteq> Some 0" and "stdout r \<noteq> []"
    and "JSON_parse w (stripTestRunnerError (CI w) (stdout r)) = Some (JObj props)"
    and "map_of props rel = None"
  shows "lintTemplate w d st =
     (Thrown TypeError, st\<lparr> spawned := spawned st @ [spawnArguments (dirname cf) rel d] \<rparr>)"
proof -
  have "readLintIssues w rel r = JUndefined"
    using assms(7,8) by (simp add: readLintIssues_output [OF assms(4,5,6)] getProperty_def)
  with assms(2,3) show ?thesis
    by (simp add: lintTemplate_config [OF assms(1)] publish_def)
qed

lemma lintTemplate_failure_returns:
  assumes "findUp_sync (files w) ''.template-lintrc.js'' (dirname (uri d)) = Some cf"
    and "rel = join (relative (dirname cf) (uri d))"
    and "r = spawnSync w (spawnArguments (dirname cf) rel d)"
    and "error r \<noteq> None \<or> status r = Some 0 \<or> stdout r = []
         \<or> JSON_parse w (stripTestRunnerError (CI w) (stdout r)) = None"
  shows "fst (lintTemplate w d st) = Returned"
proof -
  have "readLintIssues w rel r = JArr []"
  proof (cases "error r = None \<and> (status r = Some 0 \<or> stdout r = [])")
    case True
    then show ?thesis by (simp add: readLintIssues_quiet)
  next
    case False
    with assms(4) have "error r \<noteq> None
     \<or> (status r \<noteq> Some 0 \<and> stdout r \<noteq> []
        \<and> JSON_parse w (stripTestRunnerError (CI w) (stdout r)) = None)"
      by auto
    then show ?thesis by (rule readLintIssues_failed)
  qed
  with assms(2,3) show ?thesis
    by (simp add: lintTemplate_config [OF assms(1)] publish_empty)
qed

section \<open>Rounding to a double\<close>

lemma roundToDouble_exact: "\<bar>x\<bar> \<le> 2 ^ 53 \<Longrightarrow> roundToDouble x = x"
  by (simp add: roundToDouble_def)

lemma quantum_le:
  assumes "2 ^ 53 < (a::int)"
  shows "(2::int) ^ (nat (bitlen a) - 53) \<le> a"
proof -
  from assms have pos: "0 < a" by simp
  from bitlen_bounds [OF pos] have lo: "2 ^ nat (bitlen a - 1) \<le> a" by simp
  have "(2::int) ^ (nat (bitlen a) - 53) \<le> 2 ^ nat (bitlen a - 1)"
    by (rule power_increasing) simp_all
  from this lo show ?thesis by (rule order_trans)
qed

lemma roundToDouble_magnitude:
  assumes "2 ^ 53 < \<bar>x\<bar>"
  shows "\<exists>m. 0 < m \<and> roundToDouble x = sgn x * m"
proof -
  let ?a = "\<bar>x\<bar>"
  let ?q = "(2::int) ^ (nat (bitlen ?a) - 53)"
  let ?k = "?a div ?q"
  have q: "0 < ?q" by simp
  have "?q \<le> ?a" using assms by (rule quantum_le)
  with pos_imp_zdiv_pos_iff [OF q, of ?a] have "0 < ?k" by blast
  then have k: "1 \<le> ?k" by linarith
  let ?k' = "if 2 * (?a mod ?q) < ?q then ?k
             else if ?q < 2 * (?a mod ?q) then ?k + 1
             else if even ?k then ?k else ?k + 1"
  have "0 < ?k'" using k by auto
  with q have "0 < ?k' * ?q" by (simp only: mult_pos_pos)
  moreover have "roundToDouble x = sgn x * (?k' * ?q)"
    using assms by (simp add: roundToDouble_def Let_def)
  ultimately show ?thesis by blast
qed

lemma roundToDouble_neg_iff: "roundToDouble x < 0 \<longleftrightarrow> x < 0"
proof (cases "\<bar>x\<bar> \<le> 2 ^ 53")
  case True
  then show ?thesis by (simp add: roundToDouble_exact)
next
  case False
  then have "2 ^ 53 < \<bar>x\<bar>" by simp
  from roundToDouble_magnitude [OF this] obtain m where m: "0 < m" "roundToDouble x = sgn x * m"
    by blast
  show ?thesis
  proof (cases "x < 0")
    case True
    with m show ?thesis by simp
  next
    case False
    with m have "0 \<le> roundToDouble x" by (simp add: sgn_if)
    with False show ?thesis by simp
  qed
qed

lemma roundToDouble_tie: "roundToDouble (2 ^ 53 + 1) = 2 ^ 53"
  by code_simp

section \<open>The diagnostic of a Lint Issue\<close>

lemma newRange_throws_iff:
  "newRange sl sc el ec = Inl e \<longleftrightarrow> e = IllegalArgument \<and> (sl < 0 \<or> sc < 0 \<or> el < 0 \<or> ec < 0)"
  by (cases e) (auto simp add: newRange_def)

lemma newRange_one_character:
  "0 \<le> l \<Longrightarrow> 0 \<le> c \<Longrightarrow> newRange l c l (c + 1) = Inr (Range l c l (c + 1))"
  by (simp add: newRange_def)

lemma getDiagnosticForLintResult_no_range:
  assumes "line i = None \<or> column i = None"
  shows "getDiagnosticForLintResult i =
     Inr \<lparr> diag_message = message i,
           diag_severity = (if severity i = 2 then Error else Information),
           diag_source = ''ember-template-linter'',
           diag_code = (if truthy (rule i) then rule i else None),
           diag_range = None \<rparr>"
  using assms
  by (cases "line i"; cases "column i") (simp_all add: getDiagnosticForLintResult_def Let_def)

lemma getDiagnosticForLintResult_both:
  assumes "line i = Some l" and "column i = Some c"
  shows "getDiagnosticForLintResult i =
     (case newRange (minus_js l 1) c (minus_js l 1) (plus_js c 1) of
        Inl e \<Rightarrow> Inl e
      | Inr r \<Rightarrow>
          Inr \<lparr> diag_message = message i,
                diag_severity = (if severity i = 2 then Error else Information),
                diag_source = ''ember-template-linter'',
                diag_code = (if truthy (rule i) then rule i else None),
                diag_range = Some r \<rparr>)"
  using assms by (simp add: getDiagnosticForLintResult_def Let_def split: sum.splits)

lemma getDiagnosticForLintResult_range:
  assumes "line i = Some l" and "column i = Some c"
    and "1 \<le> l" and "l \<le> 2 ^ 53" and "0 \<le> c" and "c < 2 ^ 53"
  shows "getDiagnosticForLintResult i =
     Inr \<lparr> diag_message = message i,
           diag_severity = (if severity i = 2 then Error else Information),
           diag_source = ''ember-template-linter'',
           diag_code = (if truthy (rule i) then rule i else None),
           diag_range = Some (Range (l - 1) c (l - 1) (c + 1)) \<rparr>"
proof -
  have m: "minus_js l 1 = l - 1"
    using assms(3,4) by (simp add: minus_js_def roundToDouble_exact)
  have p: "plus_js c 1 = c + 1"
    using assms(5,6) by (simp add: plus_js_def roundToDouble_exact)
  have "newRange (l - 1) c (l - 1) (c + 1) = Inr (Range (l - 1) c (l - 1) (c + 1))"
    using assms(3,5) by (simp add: newRange_one_character)
  with m p show ?thesis
    by (simp add: getDiagnosticForLintResult_both [OF assms(1,2)])
qed

lemma getDiagnosticForLintResult_throws_iff:
  "getDiagnosticForLintResult i = Inl e \<longleftrightarrow>
     e = IllegalArgument \<and> (\<exists>l c. line i = Some l \<and> column i = Some c \<and> (l < 1 \<or> c < 0))"
proof (cases "line i = None \<or> column i = None")
  case True
  then show ?thesis by (auto simp add: getDiagnosticForLintResult_no_range)
next
  case False
  then obtain l c where lc: "line i = Some l" "column i = Some c" by auto
  have n: "newRange (minus_js l 1) c (minus_js l 1) (plus_js c 1) = Inl e \<longleftrightarrow>
        e = IllegalArgument \<and> (l < 1 \<or> c < 0)"
    by (auto simp add: newRange_throws_iff minus_js_def plus_js_def roundToDouble_neg_iff)
  have "getDiagnosticForLintResult i = Inl e \<longleftrightarrow>
        newRange (minus_js l 1) c (minus_js l 1) (plus_js c 1) = Inl e"
    by (cases "newRange (minus_js l 1) c (minus_js l 1) (plus_js c 1)")
       (simp_all add: getDiagnosticForLintResult_both [OF lc])
  with n lc show ?thesis by simp
qed

lemma getDiagnosticForLintResult_returns_iff:
  "(\<exists>d. getDiagnosticForLintResult i = Inr d) \<longleftrightarrow>
     (\<forall>l c. line i = Some l \<and> column i = Some c \<longrightarrow> 1 \<le> l \<and> 0 \<le> c)"
proof -
  have "(\<exists>d. getDiagnosticForLintResult i = Inr d) \<longleftrightarrow> (\<forall>e. getDiagnosticForLintResult i \<noteq> Inl e)"
    by (cases "getDiagnosticForLintResult i") simp_all
  also have "\<dots> \<longleftrightarrow> (\<forall>l c. line i = Some l \<and> column i = Some c \<longrightarrow> 1 \<le> l \<and> 0 \<le> c)"
    by (auto simp add: getDiagnosticForLintResult_throws_iff)
  finally show ?thesis .
qed

lemma getDiagnosticForLintResult_fields:
  assumes "getDiagnosticForLintResult i = Inr d"
  shows "diag_message d = message i
     \<and> diag_severity d = (if severity i = 2 then Error else Information)
     \<and> diag_source d = ''ember-template-linter''
     \<and> diag_code d = (if truthy (rule i) then rule i else None)
     \<and> (diag_range d \<noteq> None \<longleftrightarrow> line i \<noteq> None \<and> column i \<noteq> None)"
proof (cases "line i = None \<or> column i = None")
  case True
  from getDiagnosticForLintResult_no_range [OF True] assms
  have "d = \<lparr> diag_message = message i,
         diag_severity = (if severity i = 2 then Error else Information),
         diag_source = ''ember-template-linter'',
         diag_code = (if truthy (rule i) then rule i else None),
         diag_range = None \<rparr>" by simp
  with True show ?thesis by auto
next
  case False
  then obtain l c where lc: "line i = Some l" "column i = Some c" by auto
  from assms obtain r where
    "d = \<lparr> diag_message = message i,
              diag_severity = (if severity i = 2 then Error else Information),
              diag_source = ''ember-template-linter'',
              diag_code = (if truthy (rule i) then rule i else None),
              diag_range = Some r \<rparr>"
    by (auto simp add: getDiagnosticForLintResult_both [OF lc] split: sum.splits)
  with lc show ?thesis by simp
qed

lemma mapDiagnostics_length:
  "mapDiagnostics issues = Inr ds \<Longrightarrow> length ds = length issues"
  by (induction issues arbitrary: ds) (auto split: sum.splits)

section \<open>Claims about failed lint cycles\<close>

text \<open>
  C1, as amended. A lint cycle that finds a configuration and whose subprocess could not be
  started, was ended at the timeout (both reported through \<open>error\<close>), or printed output
  that \<open>JSON.parse\<close> rejects, returns normally and publishes the empty list for the
  document: its diagnostics after the cycle are empty whatever they were before, and the
  diagnostics of every other document are unchanged.
\<close>

theorem failed_cycle_publishes_empty:
  assumes "findUp_sync (files w) ''.template-lintrc.js'' (dirname (uri d)) = Some cf"
    and "rel = join (relative (dirname cf) (uri d))"
    and "r = spawnSync w (spawnArguments (dirname cf) rel d)"
    and "error r \<noteq> None
         \<or> (status r \<noteq> Some 0 \<and> stdout r \<noteq> []
            \<and> JSON_parse w (stripTestRunnerError (CI w) (stdout r)) = None)"
  shows "fst (lintTemplate w d st) = Returned
     \<and> getDiagnostics (snd (lintTemplate w d st)) (uri d) = []
     \<and> (\<forall>u. u \<noteq> uri d \<longrightarrow> getDiagnostics (snd (lintTemplate w d st)) u = getDiagnostics st u)"
proof -
  have "readLintIssues w rel r = JArr []"
    using assms(4) by (rule readLintIssues_failed)
  with assms(2,3) have "lintTemplate w d st =
      publish d (JArr []) (st\<lparr> spawned := spawned st @ [spawnArguments (dirname cf) rel d] \<rparr>)"
    by (simp add: lintTemplate_config [OF assms(1)])
  then show ?thesis
    by (simp add: publish_empty getDiagnostics_def)
qed

theorem failed_cycle_publishes_empty_witness:
  "findUp_sync (files (sampleWorld \<lparr> error = Some ETIMEDOUT, status = None, stdout = [] \<rparr> None))
       ''.template-lintrc.js'' (dirname (uri sampleDocument))
     = Some [''proj'', ''.template-lintrc.js'']
   \<and> getDiagnostics shownState (uri sampleDocument) = [sampleDiagnostic]
   \<and> fst (lintTemplate (sampleWorld \<lparr> error = Some ETIMEDOUT, status = None, stdout = [] \<rparr> None)
            sampleDocument shownState) = Returned
   \<and> getDiagnostics
         (snd (lintTemplate (sampleWorld \<lparr> error = Some ETIMEDOUT, status = None, stdout = [] \<rparr> None)
                 sampleDocument shownState))
         (uri sampleDocument) = []"
proof -
  let ?w = "sampleWorld \<lparr> error = Some ETIMEDOUT, status = None, stdout = [] \<rparr> None"
  have cfg: "findUp_sync (files ?w) ''.template-lintrc.js'' (dirname (uri sampleDocument))
      = Some [''proj'', ''.template-lintrc.js'']"
    by (simp add: sampleWorld_def sampleDocument_def dirname_def sampleFiles_def findUp_sync.simps)
  have err: "error (spawnSync ?w (spawnArguments (dirname [''proj'', ''.template-lintrc.js''])
        (join (relative (dirname [''proj'', ''.template-lintrc.js'']) (uri sampleDocument)))
        sampleDocument)) \<noteq> None
      \<or> False"
    by (simp add: sampleWorld_def)
  have shown: "getDiagnostics shownState (uri sampleDocument) = [sampleDiagnostic]"
    by (simp add: shownState_def getDiagnostics_def)
  from failed_cycle_publishes_empty [OF cfg refl refl, of shownState] err cfg shown
  show ?thesis by simp
qed

text \<open>
  The claim C1 as stated, that the document's diagnostics after such a cycle equal those
  before it, fails when diagnostics were shown before: the executable cannot be started,
  and the diagnostic shown for the sample template is gone after the cycle.
\<close>

theorem failed_cycle_keeps_diagnostics_counterexample:
  "error (spawnSync (sampleWorld \<lparr> error = Some ENOENT, status = None, stdout = [] \<rparr> None)
            (spawnArguments [''proj''] ''app/a.hbs'' sampleDocument)) = Some ENOENT
   \<and> getDiagnostics
         (snd (lintTemplate (sampleWorld \<lparr> error = Some ENOENT, status = None, stdout = [] \<rparr> None)
                 sampleDocument shownState))
         (uri sampleDocument)
       \<noteq> getDiagnostics shownState (uri sampleDocument)"
  by (simp add: lintTemplate_def sampleWorld_def sampleDocument_def dirname_def sampleFiles_def
      findUp_sync.simps readLintIssues_def publish_def getDiagnostics_def shownState_def
      initial_def Let_def)

text \<open>
  C2. The claim lists the outcomes after which the cycle must complete without throwing;
  one of them is parsed output that lacks the key of the relative path. On the output
  \<open>{}\<close> with exit status 1 the lookup yields \<open>undefined\<close>, which is assigned to
  \<open>lintIssues\<close>; the read of \<open>lintIssues.length\<close> throws inside the \<open>try\<close> block and is
  caught, and \<open>lintIssues.map\<close> after the block throws a TypeError that leaves
  \<open>lintTemplate\<close>. The subprocess has run and the collection is untouched.
\<close>

theorem missing_key_throws:
  "sampleParse ''{}'' = Some (JObj [])
   \<and> lintTemplate (sampleWorld \<lparr> error = None, status = Some 1, stdout = ''{}'' \<rparr> None)
        sampleDocument shownState
     = (Thrown TypeError,
        shownState\<lparr> spawned := [spawnArguments [''proj''] ''app/a.hbs'' sampleDocument] \<rparr>)"
  by (simp add: lintTemplate_def sampleWorld_def sampleDocument_def dirname_def sampleFiles_def
      findUp_sync.simps readLintIssues_def publish_def shownState_def sampleParse_def
      stripTestRunnerError_def getProperty_def initial_def Let_def)

section \<open>Claims about requests\<close>

text \<open>
  C3, as amended. A request for a document whose path does not end in \<open>.hbs\<close> clears the
  whole collection at once, so that no document has diagnostics afterwards; it schedules
  and cancels no timeout and spawns no subprocess.
\<close>

theorem non_template_request_clears_all:
  assumes "\<not> endsWith (fsPath (uri d)) ''.hbs''"
  shows "(\<forall>u. getDiagnostics (updateDiagnostics now d st) u = [])
     \<and> timers (updateDiagnostics now d st) = timers st
     \<and> lintTimeoutId (updateDiagnostics now d st) = lintTimeoutId st
     \<and> spawned (updateDiagnostics now d st) = spawned st"
  by (simp add: updateDiagnostics_not_hbs [OF assms] getDiagnostics_def)

theorem non_template_request_clears_all_witness:
  "\<not> endsWith (fsPath (uri readmeDocument)) ''.hbs''
   \<and> (\<forall>u. getDiagnostics (updateDiagnostics 0 readmeDocument shownState) u = [])
   \<and> spawned (updateDiagnostics 0 readmeDocument shownState) = []"
proof -
  have h: "\<not> endsWith (fsPath (uri readmeDocument)) ''.hbs''"
    by (simp add: endsWith_def fsPath_def readmeDocument_def)
  from non_template_request_clears_all [OF h, of 0 shownState] h show ?thesis
    by (simp add: shownState_def initial_def)
qed

text \<open>
  The claim C3 as stated, that the diagnostics of every other document are unchanged,
  fails: a request for the readme removes the diagnostic shown for the sample template.
\<close>

theorem non_template_request_frame_counterexample:
  "\<not> endsWith (fsPath (uri readmeDocument)) ''.hbs''
   \<and> uri sampleDocument \<noteq> uri readmeDocument
   \<and> getDiagnostics (updateDiagnostics 0 readmeDocument shownState) (uri sampleDocument)
       \<noteq> getDiagnostics shownState (uri sampleDocument)"
  by (simp add: endsWith_def fsPath_def readmeDocument_def sampleDocument_def
      updateDiagnostics_def getDiagnostics_def shownState_def initial_def)

text \<open>
  C4. Take a state in which the timer table and \<open>lintTimeoutId\<close> agree, as in every
  reachable state, and a burst that starts with a request for a template document \<open>d\<close> at
  time \<open>t\<close> and goes on with the events \<open>evs\<close>, in which every request comes less than
  \<open>DELAY_BEFORE_LINT_MS\<close> after the one before it and the timer phase may run at any
  moment. Then at most one subprocess is spawned, and it targets the document of the last
  request. A request for a template document leaves exactly its own timeout scheduled,
  whichever document the timeout pending before was for.
\<close>

theorem debounce_burst:
  assumes "wf_state st" and "endsWith (fsPath (uri d)) ''.hbs''" and "burst t t evs"
  shows "(spawned (run W ((t, Request d) # evs) st) = spawned st
          \<or> (\<exists>cmd. spawned (run W ((t, Request d) # evs) st) = spawned st @ [cmd]
                \<and> targets cmd (lastRequested d evs)))
     \<and> (\<forall>st' d' now. wf_state st' \<and> endsWith (fsPath (uri d')) ''.hbs'' \<longrightarrow>
           map snd (timers (updateDiagnostics now d' st')) = [(now + DELAY_BEFORE_LINT_MS, d')])
     \<and> (\<forall>evs'. wf_state (run W evs' initial))"
proof -
  note u = updateDiagnostics_hbs [OF assms(2,1), of t]
  from burst_pending [OF assms(3) le_refl u(1) u(2), of W] u(3)
  have "spawned (run W ((t, Request d) # evs) st) = spawned st
          \<or> (\<exists>cmd. spawned (run W ((t, Request d) # evs) st) = spawned st @ [cmd]
                \<and> targets cmd (lastRequested d evs))"
    by (simp add: run_Cons)
  moreover have "\<forall>st' d' now. wf_state st' \<and> endsWith (fsPath (uri d')) ''.hbs'' \<longrightarrow>
           map snd (timers (updateDiagnostics now d' st')) = [(now + DELAY_BEFORE_LINT_MS, d')]"
    by (simp add: updateDiagnostics_hbs)
  moreover have "\<forall>evs'. wf_state (run W evs' initial)"
    by (simp add: wf_state_run wf_state_initial)
  ultimately show ?thesis by blast
qed

theorem debounce_burst_witness:
  "wf_state initial
   \<and> burst 0 0 [(200, Request otherDocument), (400, TimerPhase), (700, TimerPhase),
                 (900, TimerPhase)]
   \<and> lastRequested sampleDocument
        [(200, Request otherDocument), (400, TimerPhase), (700, TimerPhase),
         (900, TimerPhase)] = otherDocument
   \<and> (spawned (run (\<lambda>t. sampleWorld \<lparr> error = None, status = Some 0, stdout = [] \<rparr> None)
                 ((0, Request sampleDocument) #
                  [(200, Request otherDocument), (400, TimerPhase), (700, TimerPhase),
                   (900, TimerPhase)])
                 initial) = []
       \<or> (\<exists>cmd. spawned (run (\<lambda>t. sampleWorld \<lparr> error = None, status = Some 0, stdout = [] \<rparr> None)
                 ((0, Request sampleDocument) #
                  [(200, Request otherDocument), (400, TimerPhase), (700, TimerPhase),
                   (900, TimerPhase)])
                 initial) = [cmd]
             \<and> targets cmd otherDocument))"
proof -
  let ?evs = "[(200, Request otherDocument), (400, TimerPhase), (700, TimerPhase),
                 (900::nat, TimerPhase)]"
  have wf: "wf_state initial" by (rule wf_state_initial)
  have hbs: "endsWith (fsPath (uri sampleDocument)) ''.hbs''"
    by (simp add: endsWith_def fsPath_def sampleDocument_def)
  have b: "burst 0 0 ?evs"
    by (simp add: DELAY_BEFORE_LINT_MS_def endsWith_def fsPath_def otherDocument_def)
  have l: "lastRequested sampleDocument ?evs = otherDocument" by simp
  from debounce_burst [OF wf hbs b, of "\<lambda>t. sampleWorld \<lparr> error = None, status = Some 0, stdout = [] \<rparr> None"]
    wf b l
  show ?thesis by (simp add: initial_def)
qed

section \<open>Claims about configuration lookup\<close>

text \<open>
  C5. When neither the directory of the document nor any directory above it holds the
  configuration file, the lint cycle returns normally, publishes the empty list for the
  document and spawns no subprocess.
\<close>

theorem no_config_publishes_empty:
  assumes "\<forall>k\<le>length (dirname (uri d)).
             \<not> files w (take k (dirname (uri d)) @ [''.template-lintrc.js''])"
  shows "fst (lintTemplate w d st) = Returned
     \<and> getDiagnostics (snd (lintTemplate w d st)) (uri d) = []
     \<and> spawned (snd (lintTemplate w d st)) = spawned st"
proof -
  from assms have "findUp_sync (files w) ''.template-lintrc.js'' (dirname (uri d)) = None"
    by (simp add: findUp_sync_None_iff)
  then show ?thesis
    by (simp add: lintTemplate_no_config getDiagnostics_def)
qed

theorem no_config_publishes_empty_witness:
  "getDiagnostics shownState (uri sampleDocument) = [sampleDiagnostic]
   \<and> getDiagnostics
        (snd (lintTemplate
                ((sampleWorld \<lparr> error = None, status = Some 0, stdout = [] \<rparr> None)\<lparr> files := \<lambda>p. False \<rparr>)
                sampleDocument shownState))
        (uri sampleDocument) = []
   \<and> spawned
        (snd (lintTemplate
                ((sampleWorld \<lparr> error = None, status = Some 0, stdout = [] \<rparr> None)\<lparr> files := \<lambda>p. False \<rparr>)
                sampleDocument shownState)) = []"
proof -
  let ?w = "(sampleWorld \<lparr> error = None, status = Some 0, stdout = [] \<rparr> None)\<lparr> files := \<lambda>p. False \<rparr>"
  have h: "\<forall>k\<le>length (dirname (uri sampleDocument)).
       \<not> files ?w (take k (dirname (uri sampleDocument)) @ [''.template-lintrc.js''])"
    by simp
  have shown: "getDiagnostics shownState (uri sampleDocument) = [sampleDiagnostic]"
    by (simp add: shownState_def getDiagnostics_def)
  from no_config_publishes_empty [OF h, of shownState] shown show ?thesis
    by (simp add: shownState_def initial_def)
qed

section \<open>Claims about the diagnostic of a Lint Issue\<close>

text \<open>
  C6, as amended. A Lint Issue without rule, line and column whose severity code is 2 is
  mapped to exactly one diagnostic: error tier, the message of the issue, no code and no
  range.
\<close>

theorem fatal_issue_diagnostic:
  "rule i = None \<and> line i = None \<and> column i = None \<and> severity i = 2 \<longrightarrow>
     mapDiagnostics [i] =
       Inr [\<lparr> diag_message = message i, diag_severity = Error,
               diag_source = ''ember-template-linter'', diag_code = None, diag_range = None \<rparr>]"
  by (simp add: getDiagnosticForLintResult_no_range truthy_def)

theorem fatal_issue_diagnostic_witness:
  "rule sampleIssue = None \<and> line sampleIssue = None \<and> column sampleIssue = None
   \<and> severity sampleIssue = 2
   \<and> mapDiagnostics [sampleIssue] =
       Inr [\<lparr> diag_message = ''Parse error on line 1'', diag_severity = Error,
               diag_source = ''ember-template-linter'', diag_code = None, diag_range = None \<rparr>]"
  using fatal_issue_diagnostic [of sampleIssue] by (simp add: sampleIssue_def)

text \<open>
  The claim C6 as stated, for every Lint Issue without rule, line and column, fails for
  such an issue with severity code 1: its diagnostic is of informational tier.
\<close>

theorem fatal_issue_error_tier_counterexample:
  "rule (sampleIssue\<lparr> severity := 1 \<rparr>) = None
   \<and> line (sampleIssue\<lparr> severity := 1 \<rparr>) = None
   \<and> column (sampleIssue\<lparr> severity := 1 \<rparr>) = None
   \<and> mapDiagnostics [sampleIssue\<lparr> severity := 1 \<rparr>] =
       Inr [\<lparr> diag_message = ''Parse error on line 1'', diag_severity = Information,
               diag_source = ''ember-template-linter'', diag_code = None, diag_range = None \<rparr>]"
  by (simp add: getDiagnosticForLintResult_no_range truthy_def sampleIssue_def)

text \<open>
  C7, as amended. Whenever the mapping yields a diagnostic, it has error tier exactly when
  the severity code is 2 and informational tier otherwise; it carries a code exactly when
  the rule identifier is present and not the empty string, and then the code is the rule
  identifier. The mapping yields a diagnostic for every issue, except that with both a
  line and a column, a line below 1 or a column below 0 ends it with the exception of the
  \<open>Range\<close> constructor.
\<close>

theorem severity_and_code:
  "(\<forall>d. getDiagnosticForLintResult i = Inr d \<longrightarrow>
        (diag_severity d = Error \<longleftrightarrow> severity i = 2)
      \<and> (diag_severity d = Information \<longleftrightarrow> severity i \<noteq> 2)
      \<and> (diag_code d \<noteq> None \<longleftrightarrow> (\<exists>r. rule i = Some r \<and> r \<noteq> []))
      \<and> (diag_code d \<noteq> None \<longrightarrow> diag_code d = rule i))
   \<and> ((\<exists>d. getDiagnosticForLintResult i = Inr d) \<longleftrightarrow>
        (\<forall>l c. line i = Some l \<and> column i = Some c \<longrightarrow> 1 \<le> l \<and> 0 \<le> c))"
proof -
  have "(diag_severity d = Error \<longleftrightarrow> severity i = 2)
      \<and> (diag_severity d = Information \<longleftrightarrow> severity i \<noteq> 2)
      \<and> (diag_code d \<noteq> None \<longleftrightarrow> (\<exists>r. rule i = Some r \<and> r \<noteq> []))
      \<and> (diag_code d \<noteq> None \<longrightarrow> diag_code d = rule i)"
    if "getDiagnosticForLintResult i = Inr d" for d
    using getDiagnosticForLintResult_fields [OF that]
    by (cases "rule i") (simp_all add: truthy_def)
  then show ?thesis
    using getDiagnosticForLintResult_returns_iff [of i] by blast
qed

theorem severity_and_code_witness:
  "\<exists>d. getDiagnosticForLintResult (sampleIssue\<lparr> rule := Some ''no-bare-strings'' \<rparr>) = Inr d
       \<and> diag_severity d = Error
       \<and> diag_code d = Some ''no-bare-strings''"
proof -
  let ?i = "sampleIssue\<lparr> rule := Some ''no-bare-strings'' \<rparr>"
  have "\<forall>l c. line ?i = Some l \<and> column ?i = Some c \<longrightarrow> 1 \<le> l \<and> 0 \<le> c"
    by (simp add: sampleIssue_def)
  with severity_and_code [of ?i] obtain d where d: "getDiagnosticForLintResult ?i = Inr d"
    by blast
  have r: "\<exists>r. rule ?i = Some r \<and> r \<noteq> []" by simp
  have s: "severity ?i = 2" by (simp add: sampleIssue_def)
  from severity_and_code [of ?i] d r s
  have "diag_severity d = Error \<and> diag_code d = Some ''no-bare-strings''"
    by simp
  with d show ?thesis by blast
qed

text \<open>
  The claim C7 as stated, that the code is carried whenever the rule identifier is
  present, fails for the empty string, which \<open>if (rule)\<close> takes as false.
\<close>

theorem rule_code_presence_counterexample:
  "rule (sampleIssue\<lparr> rule := Some [] \<rparr>) \<noteq> None
   \<and> getDiagnosticForLintResult (sampleIssue\<lparr> rule := Some [] \<rparr>) =
       Inr \<lparr> diag_message = ''Parse error on line 1'', diag_severity = Error,
             diag_source = ''ember-template-linter'', diag_code = None, diag_range = None \<rparr>"
  by (simp add: getDiagnosticForLintResult_no_range truthy_def sampleIssue_def)

text \<open>
  C8, as amended. For a Lint Issue in which a line and a column that are both present
  satisfy \<open>1 \<le> line \<le> 2 ^ 53\<close> and \<open>0 \<le> column < 2 ^ 53\<close>, the mapping yields a
  diagnostic; it has a range exactly when the issue has both a line and a column, and the
  range is then the single character from \<open>(line - 1, column)\<close> to
  \<open>(line - 1, column + 1)\<close>.
\<close>

theorem single_character_range:
  assumes "\<forall>l c. line i = Some l \<and> column i = Some c \<longrightarrow>
             1 \<le> l \<and> l \<le> 2 ^ 53 \<and> 0 \<le> c \<and> c < 2 ^ 53"
  shows "\<exists>d. getDiagnosticForLintResult i = Inr d
     \<and> (diag_range d \<noteq> None \<longleftrightarrow> line i \<noteq> None \<and> column i \<noteq> None)
     \<and> (\<forall>l c. line i = Some l \<and> column i = Some c \<longrightarrow>
           diag_range d = Some (Range (l - 1) c (l - 1) (c + 1)))"
proof (cases "line i = None \<or> column i = None")
  case True
  from getDiagnosticForLintResult_no_range [OF True] True show ?thesis by auto
next
  case False
  then obtain l c where lc: "line i = Some l" "column i = Some c" by auto
  with assms have b: "1 \<le> l" "l \<le> 2 ^ 53" "0 \<le> c" "c < 2 ^ 53" by simp_all
  from getDiagnosticForLintResult_range [OF lc b] lc show ?thesis by simp
qed

theorem single_character_range_witness:
  "\<exists>d. getDiagnosticForLintResult (sampleIssue\<lparr> line := Some 3, column := Some 5 \<rparr>) = Inr d
       \<and> diag_range d = Some (Range 2 5 2 6)"
proof -
  let ?i = "sampleIssue\<lparr> line := Some 3, column := Some 5 \<rparr>"
  have h: "\<forall>l c. line ?i = Some l \<and> column ?i = Some c \<longrightarrow>
             1 \<le> l \<and> l \<le> 2 ^ 53 \<and> 0 \<le> c \<and> c < 2 ^ 53"
    by simp
  from single_character_range [OF h] show ?thesis by auto
qed

text \<open>
  The claim C8 as stated, for every Lint Issue, fails in two ways. At column \<open>2 ^ 53\<close>
  the sum \<open>column + 1\<close> is rounded back to \<open>2 ^ 53\<close>, so the range ends where it
  starts and holds no character. At line 0, with a column present, the \<open>Range\<close>
  constructor is given the line \<open>-1\<close> and throws, so that no diagnostic results.
\<close>

theorem single_character_range_counterexample:
  "getDiagnosticForLintResult (sampleIssue\<lparr> line := Some 1, column := Some (2 ^ 53) \<rparr>) =
     Inr \<lparr> diag_message = ''Parse error on line 1'', diag_severity = Error,
           diag_source = ''ember-template-linter'', diag_code = None,
           diag_range = Some (Range 0 (2 ^ 53) 0 (2 ^ 53)) \<rparr>
   \<and> getDiagnosticForLintResult (sampleIssue\<lparr> line := Some 0, column := Some 0 \<rparr>) =
       Inl IllegalArgument"
  by code_simp

section \<open>Claims about configuration resolution and the environment\<close>

text \<open>
  C9. The lookup returns the configuration file of the nearest directory, among the start
  directory and the directories above it, that holds one; it returns none exactly when
  none of them does. Nothing is cached: the working directory of the subprocess that a
  lint cycle spawns is resolved against the files that exist at that cycle, whatever the
  state before it.
\<close>

theorem config_resolution_nearest:
  "(findUp_sync isFile name dir = Some p \<longleftrightarrow>
      (\<exists>k\<le>length dir. p = take k dir @ [name] \<and> isFile p
         \<and> (\<forall>j. k < j \<and> j \<le> length dir \<longrightarrow> \<not> isFile (take j dir @ [name]))))
   \<and> (findUp_sync isFile name dir = None \<longleftrightarrow>
        (\<forall>k\<le>length dir. \<not> isFile (take k dir @ [name])))
   \<and> map cwd (spawned (snd (lintTemplate w d st))) =
        map cwd (spawned st) @
          (case findUp_sync (files w) ''.template-lintrc.js'' (dirname (uri d)) of
             None \<Rightarrow> []
           | Some cf \<Rightarrow> [dirname cf])"
proof -
  have "map cwd (spawned (snd (lintTemplate w d st))) =
        map cwd (spawned st) @
          (case findUp_sync (files w) ''.template-lintrc.js'' (dirname (uri d)) of
             None \<Rightarrow> []
           | Some cf \<Rightarrow> [dirname cf])"
    by (simp add: lintTemplate_spawned spawnArguments_def split: option.splits)
  then show ?thesis
    using findUp_sync_Some_iff [of isFile name dir p] findUp_sync_None_iff [of isFile name dir]
    by blast
qed

theorem config_resolution_nearest_witness:
  "findUp_sync sampleFiles ''.template-lintrc.js'' [''proj'', ''app'']
     = Some [''proj'', ''.template-lintrc.js'']
   \<and> findUp_sync (\<lambda>p. False) ''.template-lintrc.js'' [''proj'', ''app''] = None"
proof -
  have far: "\<forall>j. 1 < j \<and> j \<le> length [''proj'', ''app''] \<longrightarrow>
      \<not> sampleFiles (take j [''proj'', ''app''] @ [''.template-lintrc.js''])"
    by (simp add: sampleFiles_def)
  have "\<exists>k\<le>length [''proj'', ''app''].
      [''proj'', ''.template-lintrc.js''] = take k [''proj'', ''app''] @ [''.template-lintrc.js'']
      \<and> sampleFiles [''proj'', ''.template-lintrc.js'']
      \<and> (\<forall>j. k < j \<and> j \<le> length [''proj'', ''app''] \<longrightarrow>
            \<not> sampleFiles (take j [''proj'', ''app''] @ [''.template-lintrc.js'']))"
    using far by (intro exI [of _ 1]) (simp add: sampleFiles_def)
  moreover have "\<forall>k\<le>length [''proj'', ''app''].
      \<not> (\<lambda>p. False) (take k [''proj'', ''app''] @ [''.template-lintrc.js''])"
    by simp
  ultimately show ?thesis
    using config_resolution_nearest
            [of sampleFiles "''.template-lintrc.js''" "[''proj'', ''app'']"
                "[''proj'', ''.template-lintrc.js'']"]
          config_resolution_nearest
            [of "\<lambda>p. False" "''.template-lintrc.js''" "[''proj'', ''app'']"]
    by blast
qed

text \<open>
  C10. With \<open>CI\<close> equal to \<open>true\<close> the output is cut at the first occurrence of the
  marker before it is parsed; with any other value it is parsed whole. So when the whole
  output is not JSON while the part before the marker is, and lists at least one issue
  for the document, all of them mapped to diagnostics, the same output yields these
  diagnostics under \<open>CI = true\<close> and none otherwise.
\<close>

theorem ci_changes_interpretation:
  assumes "findUp_sync (files w) ''.template-lintrc.js'' (dirname (uri d)) = Some cf"
    and "rel = join (relative (dirname cf) (uri d))"
    and "r = spawnSync w (spawnArguments (dirname cf) rel d)"
    and "error r = None" and "status r \<noteq> Some 0"
    and "indexOf (stdout r) ''##[error]'' \<noteq> - 1"
    and "n = nat (indexOf (stdout r) ''##[error]'')"
    and "CI w = Some ''true''" and "ci \<noteq> Some ''true''"
    and "JSON_parse w (take n (stdout r)) = Some (JObj props)"
    and "map_of props rel = Some (JArr (i # issues))"
    and "mapDiagnostics (i # issues) = Inr ds"
    and "JSON_parse w (stdout r) = None"
  shows "stripTestRunnerError (CI w) (stdout r) = take n (stdout r)
     \<and> stdout r = take n (stdout r) @ ''##[error]'' @ drop (n + length ''##[error]'') (stdout r)
     \<and> (\<forall>k<n. take (length ''##[error]'') (drop k (stdout r)) \<noteq> ''##[error]'')
     \<and> stripTestRunnerError ci (stdout r) = stdout r
     \<and> getDiagnostics (snd (lintTemplate w d st)) (uri d) = ds
     \<and> ds \<noteq> []
     \<and> getDiagnostics (snd (lintTemplate (w\<lparr> CI := ci \<rparr>) d st)) (uri d) = []
     \<and> getDiagnostics (snd (lintTemplate w d st)) (uri d)
         \<noteq> getDiagnostics (snd (lintTemplate (w\<lparr> CI := ci \<rparr>) d st)) (uri d)"
proof -
  have ne: "stdout r \<noteq> []"
    using assms(6) by auto
  have s1: "stripTestRunnerError (CI w) (stdout r) = take n (stdout r)"
    using assms(6,7,8) by (simp add: stripTestRunnerError_ci)
  have s2: "stdout r = take n (stdout r) @ ''##[error]'' @ drop (n + length ''##[error]'') (stdout r)"
    unfolding assms(7) using assms(6) by (rule indexOf_found_split)
  have s3: "\<forall>k<n. take (length ''##[error]'') (drop k (stdout r)) \<noteq> ''##[error]''"
    unfolding assms(7) using indexOf_found_first [OF assms(6)] by blast
  have s4: "stripTestRunnerError ci (stdout r) = stdout r"
    using assms(9) by (rule stripTestRunnerError_other)
  have "readLintIssues w rel r = JArr (i # issues)"
    using assms(10,11) s1
    by (simp add: readLintIssues_output [OF assms(4,5) ne] getProperty_def)
  then have a: "getDiagnostics (snd (lintTemplate w d st)) (uri d) = ds"
    using assms(2,3)
    by (simp add: lintTemplate_config [OF assms(1)] publish_array [OF assms(12)]
        getDiagnostics_def)
  have ne': "ds \<noteq> []"
    using mapDiagnostics_length [OF assms(12)] by auto
  have "readLintIssues (w\<lparr> CI := ci \<rparr>) rel r = JArr []"
    using assms(13) s4
    by (simp add: readLintIssues_output [OF assms(4,5) ne])
  then have b: "getDiagnostics (snd (lintTemplate (w\<lparr> CI := ci \<rparr>) d st)) (uri d) = []"
    using assms(2,3)
    by (simp add: lintTemplate_CI_update [OF assms(1)] publish_empty getDiagnostics_def)
  from a b ne' have c: "getDiagnostics (snd (lintTemplate w d st)) (uri d)
         \<noteq> getDiagnostics (snd (lintTemplate (w\<lparr> CI := ci \<rparr>) d st)) (uri d)"
    by simp
  from s1 s2 s3 s4 a ne' b c show ?thesis by blast
qed

theorem ci_changes_interpretation_witness:
  "stdout (spawnSync (sampleWorld \<lparr> error = None, status = Some 1, stdout = sampleOutputCI \<rparr> (Some ''true''))
      (spawnArguments [''proj''] ''app/a.hbs'' sampleDocument)) = sampleOutputCI
   \<and> stripTestRunnerError (Some ''true'') sampleOutputCI = sampleOutput
   \<and> sampleParse sampleOutputCI = None
   \<and> getDiagnostics
        (snd (lintTemplate
                (sampleWorld \<lparr> error = None, status = Some 1, stdout = sampleOutputCI \<rparr> (Some ''true''))
                sampleDocument initial))
        (uri sampleDocument)
       = [\<lparr> diag_message = ''Parse error on line 1'', diag_severity = Error,
            diag_source = ''ember-template-linter'', diag_code = None, diag_range = None \<rparr>]
   \<and> getDiagnostics
        (snd (lintTemplate
                ((sampleWorld \<lparr> error = None, status = Some 1, stdout = sampleOutputCI \<rparr> (Some ''true''))
                   \<lparr> CI := None \<rparr>)
                sampleDocument initial))
        (uri sampleDocument) = []"
proof -
  let ?r = "\<lparr> error = None, status = Some 1, stdout = sampleOutputCI \<rparr>"
  let ?w = "sampleWorld ?r (Some ''true'')"
  let ?cf = "[''proj'', ''.template-lintrc.js'']"
  have cfg: "findUp_sync (files ?w) ''.template-lintrc.js'' (dirname (uri sampleDocument)) = Some ?cf"
    by (simp add: sampleWorld_def sampleDocument_def dirname_def sampleFiles_def findUp_sync.simps)
  have rel: "join (relative (dirname ?cf) (uri sampleDocument)) = ''app/a.hbs''"
    by (simp add: sampleDocument_def dirname_def)
  have r: "spawnSync ?w (spawnArguments (dirname ?cf)
             (join (relative (dirname ?cf) (uri sampleDocument))) sampleDocument) = ?r"
    by (simp add: sampleWorld_def)
  have idx: "indexOf sampleOutputCI ''##[error]'' = int (length sampleOutput)"
    by code_simp
  have found: "indexOf (stdout ?r) ''##[error]'' \<noteq> - 1"
    using idx by simp
  have cut: "take (nat (indexOf (stdout ?r) ''##[error]'')) (stdout ?r) = sampleOutput"
    using idx by (simp add: sampleOutputCI_def)
  have p1: "JSON_parse ?w (take (nat (indexOf (stdout ?r) ''##[error]'')) (stdout ?r))
      = Some (JObj [(''app/a.hbs'', JArr [sampleIssue])])"
  proof -
    have "sampleOutput \<noteq> ''{}''" by (simp add: sampleOutput_def)
    then show ?thesis unfolding cut by (simp add: sampleWorld_def sampleParse_def)
  qed
  have noparse: "sampleParse sampleOutputCI = None"
    by code_simp
  have p2: "JSON_parse ?w (stdout ?r) = None"
    using noparse by (simp add: sampleWorld_def)
  have key: "map_of [(''app/a.hbs'', JArr [sampleIssue])]
      (join (relative (dirname ?cf) (uri sampleDocument))) = Some (JArr (sampleIssue # []))"
    by (simp add: rel)
  have ci: "CI ?w = Some ''true''" by (simp add: sampleWorld_def)
  have st: "status ?r \<noteq> Some 0" "error ?r = None" by simp_all
  have ds: "mapDiagnostics (sampleIssue # []) =
      Inr [\<lparr> diag_message = ''Parse error on line 1'', diag_severity = Error,
              diag_source = ''ember-template-linter'', diag_code = None, diag_range = None \<rparr>]"
    by (simp add: getDiagnosticForLintResult_no_range truthy_def sampleIssue_def)
  from ci_changes_interpretation
         [OF cfg refl r [symmetric] st(2) st(1) found refl ci _ p1 key ds p2, of None initial]
  have "stripTestRunnerError (CI ?w) (stdout ?r) = take (nat (indexOf (stdout ?r) ''##[error]'')) (stdout ?r)
     \<and> getDiagnostics (snd (lintTemplate ?w sampleDocument initial)) (uri sampleDocument)
         = [\<lparr> diag_message = ''Parse error on line 1'', diag_severity = Error,
              diag_source = ''ember-template-linter'', diag_code = None, diag_range = None \<rparr>]
     \<and> getDiagnostics (snd (lintTemplate (?w\<lparr> CI := None \<rparr>) sampleDocument initial)) (uri sampleDocument) = []"
    by simp
  with cut ci noparse show ?thesis
    by (simp add: sampleWorld_def)
qed

end
